theory Spec2Isabelle
  imports Main "HOL-Library.Word" "HOL-Library.Signed_Division"
begin

section \<open>The emulated camera device (EmulatedCameraDevice.cpp)\<close>

text \<open>
  A shallow embedding of \<^verbatim>\<open>tools/emulator/system/camera/EmulatedCameraDevice.cpp\<close>.
  Every member function of the source becomes a HOL function that takes the object
  (a record of the members the file reads or writes) and the world (heap and call
  log) and returns the status together with the updated object and world.
  What the environment answers to a request of the code (the allocator, \<^verbatim>\<open>pipe\<close>,
  \<^verbatim>\<open>write\<close>, \<^verbatim>\<open>read\<close>, \<^verbatim>\<open>select\<close>, the thread library, the device-specific hooks) is an
  explicit argument, so that every theorem quantifies over all answers.
\<close>

subsection \<open>Machine types, status codes, constants\<close>

type_synonym status_t = int
type_synonym int32 = "32 word"
type_synonym uint32 = "32 word"
type_synonym byte = "8 word"
type_synonym addr = nat

definition NO_ERROR :: status_t where
  "NO_ERROR = 0"

definition EINTR :: int where
  "EINTR = 4"

definition ENOMEM :: int where
  "ENOMEM = 12"

definition EINVAL :: int where
  "EINVAL = 22"

text \<open>\<^verbatim>\<open>v4l2_fourcc('Y', 'V', '1', '2')\<close> of \<^verbatim>\<open>linux/videodev2.h\<close>.\<close>

definition V4L2_PIX_FMT_YVU420 :: uint32 where
  "V4L2_PIX_FMT_YVU420 = 0x32315659"

text \<open>
  \<^verbatim>\<open>int\<close> has 32 bits on the targets of the emulator. C's \<^verbatim>\<open>/\<close> on \<^verbatim>\<open>int\<close> reads the
  operands as two's complement numbers and truncates the quotient towards zero.
  The multiplication \<^verbatim>\<open>*\<close> on \<^verbatim>\<open>int\<close> is the word multiplication: where the product
  does not fit, which C++ leaves undefined, the model takes the wrap-around of
  the two's complement hardware.
\<close>

definition int32_div :: "int32 \<Rightarrow> int32 \<Rightarrow> int32" where
  "int32_div a b = word_of_int (sint a sdiv sint b)"

text \<open>
  How a call ends: it returns, it runs into behaviour C++ leaves undefined (a null
  or dangling pointer is used), or it never returns (a blocking call is never
  answered).
\<close>

datatype 'a outcome = Returns 'a | Undefined_behaviour | Never_returns

subsection \<open>The world: heap and call log\<close>

text \<open>
  A pointer into an array is the array's address and an offset in it. The log
  records, in order, what the code asked of the allocator, the thread library and
  the operating system.
\<close>

record timeval =
  tv_sec :: int
  tv_usec :: int

datatype effect =
    New_WorkerThread
  | New_array addr nat
  | Delete_array addr
  | Memcpy addr addr nat
  | Sys_pipe int int
  | Sys_write int int int
  | Sys_read int int
  | Sys_select int "int list" "timeval option" int
  | Sys_close int
  | Request_exit_and_wait status_t

record world =
  cells :: "addr \<Rightarrow> byte list option"
  brk :: addr
  trace :: "effect list"

text \<open>
  \<^verbatim>\<open>new uint8_t[n]\<close>. The allocator's answer is \<open>None\<close> (no memory: the null pointer)
  or the indeterminate content of the fresh array. Addresses are never reused.
\<close>

definition new_array :: "(nat \<Rightarrow> byte) option \<Rightarrow> nat \<Rightarrow> world \<Rightarrow> addr option \<times> world" where
  "new_array answer n w =
     (case answer of
        None \<Rightarrow> (None, w)
      | Some junk \<Rightarrow>
          (Some (brk w),
           w\<lparr>cells := (cells w)(brk w \<mapsto> map junk [0..<n]),
             brk := Suc (brk w),
             trace := trace w @ [New_array (brk w) n]\<rparr>))"

text \<open>\<^verbatim>\<open>delete[] p\<close> for a non-null \<open>p\<close>: undefined unless \<open>p\<close> is a live array.\<close>

definition delete_array :: "addr \<Rightarrow> world \<Rightarrow> world option" where
  "delete_array p w =
     (case cells w p of
        None \<Rightarrow> None
      | Some _ \<Rightarrow> Some (w\<lparr>cells := (cells w)(p := None), trace := trace w @ [Delete_array p]\<rparr>))"

text \<open>
  \<^verbatim>\<open>memcpy(dst, src, n)\<close>: undefined unless both arrays are live, hold \<open>n\<close> bytes and do
  not overlap.
\<close>

definition memcpy :: "addr \<Rightarrow> addr \<Rightarrow> nat \<Rightarrow> world \<Rightarrow> world option" where
  "memcpy dst src n w =
     (case (cells w dst, cells w src) of
        (Some d, Some s) \<Rightarrow>
          if n \<le> length d \<and> n \<le> length s \<and> dst \<noteq> src
          then Some (w\<lparr>cells := (cells w)(dst \<mapsto> take n s @ drop n d),
                       trace := trace w @ [Memcpy dst src n]\<rparr>)
          else None
      | _ \<Rightarrow> None)"

subsection \<open>The objects\<close>

text \<open>
  The header \<^verbatim>\<open>EmulatedCameraDevice.h\<close> is not among the sources. It declares the
  state enumeration, the members, \<^verbatim>\<open>isInitialized\<close>, \<^verbatim>\<open>isCapturing\<close>,
  \<^verbatim>\<open>getWorkerThread\<close>, the worker thread's constructor, its control message and
  \<^verbatim>\<open>startThread\<close>. Each of them is marked below.
\<close>

text \<open>
  Modelled from the spec: the state enumeration of the absent header. The source
  names the states \<^verbatim>\<open>ECDS_CONSTRUCTED\<close> and \<^verbatim>\<open>ECDS_INITIALIZED\<close>; the spec's data
  model has Constructed, Initialized, Started and Stopped.
\<close>

datatype EmulatedCameraDeviceState =
  ECDS_CONSTRUCTED | ECDS_INITIALIZED | ECDS_STARTED | ECDS_STOPPED

text \<open>
  The members the source file reads or writes, each with the type of the values
  the source assigns to it (the declarations are in the absent header). The lock,
  which orders concurrent callers, and the pointer to the camera HAL, which the
  file only stores, are left out.
\<close>

record WorkerThread =
  mThreadControl :: int
  mControlFD :: int

record EmulatedCameraDevice =
  mCurFrameTimestamp :: int
  mCurrentFrame :: "addr option"
  mState :: EmulatedCameraDeviceState
  mWorkerThread :: "WorkerThread option"
  mFrameBufferSize :: int32
  mFrameWidth :: int32
  mFrameHeight :: int32
  mPixelFormat :: uint32
  mTotalPixels :: int32
  mFrameU :: "(addr \<times> int) option"
  mFrameV :: "(addr \<times> int) option"

text \<open>
  Modelled from the spec: a stopped worker has both signaling endpoints closed.
  The source writes a closed endpoint as the descriptor \<open>-1\<close> (\<^verbatim>\<open>stopThread\<close>).
\<close>

definition WorkerThread_ctor :: WorkerThread where
  "WorkerThread_ctor = \<lparr>mThreadControl = - 1, mControlFD = - 1\<rparr>"

text \<open>
  The constructor of the source initialises the timestamp, the frame pointer and
  the state; the worker thread pointer is a smart pointer (null). The other
  members keep what the memory held: they are taken from \<open>indeterminate\<close>.
\<close>

definition EmulatedCameraDevice_ctor :: "EmulatedCameraDevice \<Rightarrow> EmulatedCameraDevice" where
  "EmulatedCameraDevice_ctor indeterminate =
     indeterminate\<lparr>mCurFrameTimestamp := 0, mCurrentFrame := None,
                   mState := ECDS_CONSTRUCTED, mWorkerThread := None\<rparr>"

text \<open>
  Modelled from the spec: \<^verbatim>\<open>isInitialized\<close> of the absent header. \<^verbatim>\<open>Initialize\<close> takes
  the device from Constructed to Initialized, and every operation requires at
  least Initialized.
\<close>

definition isInitialized :: "EmulatedCameraDevice \<Rightarrow> bool" where
  "isInitialized d = (mState d \<noteq> ECDS_CONSTRUCTED)"

text \<open>
  Modelled from the spec: \<^verbatim>\<open>isCapturing\<close> of the absent header. Frame access
  requires the capturing sub-state (Started), distinct from merely Initialized.
\<close>

definition isCapturing :: "EmulatedCameraDevice \<Rightarrow> bool" where
  "isCapturing d = (mState d = ECDS_STARTED)"

text \<open>
  Modelled from the spec: \<^verbatim>\<open>getWorkerThread\<close> of the absent header, the accessor of
  the worker thread object that \<^verbatim>\<open>Initialize\<close> stores.
\<close>

definition getWorkerThread :: "EmulatedCameraDevice \<Rightarrow> WorkerThread option" where
  "getWorkerThread d = mWorkerThread d"

text \<open>
  The device-specific hooks \<^verbatim>\<open>startDevice\<close> and \<^verbatim>\<open>stopDevice\<close> are virtual member
  functions implemented by a subclass: they read and may change the object and
  return a status.
\<close>

type_synonym hook = "EmulatedCameraDevice \<Rightarrow> status_t \<times> EmulatedCameraDevice"

subsection \<open>Emulated camera device public API\<close>

text \<open>\<^verbatim>\<open>Initialize\<close>. \<open>answer\<close> tells whether \<^verbatim>\<open>new WorkerThread(this)\<close> gets memory.\<close>

definition Initialize ::
  "bool \<Rightarrow> EmulatedCameraDevice \<Rightarrow> world \<Rightarrow> status_t \<times> EmulatedCameraDevice \<times> world" where
  "Initialize answer d w =
     (if isInitialized d then (NO_ERROR, d, w)
      else
        let (p, w1) = (if answer
                       then (Some WorkerThread_ctor, w\<lparr>trace := trace w @ [New_WorkerThread]\<rparr>)
                       else (None, w));
            d1 = d\<lparr>mWorkerThread := p\<rparr>
        in if getWorkerThread d1 = None then (ENOMEM, d1, w1)
           else (NO_ERROR, d1\<lparr>mState := ECDS_INITIALIZED\<rparr>, w1))"

text \<open>
  \<^verbatim>\<open>startCapturing\<close>. The frame buffer size is computed in \<^verbatim>\<open>int\<close>; the array
  length is that value read as an unsigned size.
\<close>

definition startCapturing ::
  "hook \<Rightarrow> (nat \<Rightarrow> byte) option \<Rightarrow> int32 \<Rightarrow> int32 \<Rightarrow> uint32 \<Rightarrow>
   EmulatedCameraDevice \<Rightarrow> world \<Rightarrow> (status_t \<times> EmulatedCameraDevice \<times> world) outcome" where
  "startCapturing startDevice answer width height pix_fmt d w =
     (if pix_fmt = V4L2_PIX_FMT_YVU420 then
        let d1 = d\<lparr>mFrameBufferSize := int32_div (width * height * 12) 8\<rparr>;
            d2 = d1\<lparr>mFrameWidth := width, mFrameHeight := height,
                    mPixelFormat := pix_fmt, mTotalPixels := width * height\<rparr>;
            (p, w1) = new_array answer (unat (mFrameBufferSize d2)) w;
            d3 = d2\<lparr>mCurrentFrame := p\<rparr>
        in case mCurrentFrame d3 of
             None \<Rightarrow> Returns (ENOMEM, d3, w1)
           | Some a \<Rightarrow>
               let d4 = d3\<lparr>mFrameU := Some (a, sint (mTotalPixels d3))\<rparr>;
                   d5 = d4\<lparr>mFrameV := Some (a, sint (mTotalPixels d4)
                                              + sint (int32_div (mTotalPixels d4) 4))\<rparr>;
                   (res, d6) = startDevice d5
               in if res = NO_ERROR then Returns (res, d6, w1)
                  else (case mCurrentFrame d6 of
                          None \<Rightarrow> Returns (res, d6\<lparr>mCurrentFrame := None\<rparr>, w1)
                        | Some q \<Rightarrow>
                            (case delete_array q w1 of
                               None \<Rightarrow> Undefined_behaviour
                             | Some w2 \<Rightarrow> Returns (res, d6\<lparr>mCurrentFrame := None\<rparr>, w2)))
      else Returns (EINVAL, d, w))"

text \<open>\<^verbatim>\<open>stopCapturing\<close>.\<close>

definition stopCapturing ::
  "hook \<Rightarrow> EmulatedCameraDevice \<Rightarrow> world \<Rightarrow> (status_t \<times> EmulatedCameraDevice \<times> world) outcome" where
  "stopCapturing stopDevice d w =
     (let (res, d1) = stopDevice d
      in if res = NO_ERROR then
           (case mCurrentFrame d1 of
              None \<Rightarrow> Returns (res, d1, w)
            | Some q \<Rightarrow>
                (case delete_array q w of
                   None \<Rightarrow> Undefined_behaviour
                 | Some w1 \<Rightarrow> Returns (res, d1\<lparr>mCurrentFrame := None\<rparr>, w1)))
         else Returns (res, d1, w))"

text \<open>
  \<^verbatim>\<open>getCurrentFrame\<close>. \<open>buffer\<close> is the caller's array. The object lock is not
  modelled: the embedding is of one flow of control.
\<close>

definition getCurrentFrame ::
  "addr \<Rightarrow> EmulatedCameraDevice \<Rightarrow> world \<Rightarrow> (status_t \<times> EmulatedCameraDevice \<times> world) outcome" where
  "getCurrentFrame buffer d w =
     (if \<not> isCapturing d \<or> mCurrentFrame d = None then Returns (EINVAL, d, w)
      else
        (case mCurrentFrame d of
           None \<Rightarrow> Returns (EINVAL, d, w)
         | Some src \<Rightarrow>
             (case memcpy buffer src (unat (mFrameBufferSize d)) w of
                None \<Rightarrow> Undefined_behaviour
              | Some w1 \<Rightarrow> Returns (NO_ERROR, d, w1))))"

subsection \<open>Worker thread implementation\<close>

text \<open>
  Modelled from the spec: the control message is declared in the absent header.
  It is an enumeration with the single value STOP (the first enumerator, 0).
\<close>

definition THREAD_STOP :: int where
  "THREAD_STOP = 0"

text \<open>
  Modelled from the spec: \<^verbatim>\<open>sizeof(msg)\<close> for the control message of the absent
  header, an enumeration object of four bytes.
\<close>

definition sizeof_ControlMessage :: int where
  "sizeof_ControlMessage = 4"

datatype SelectRes = TIMEOUT | READY | EXIT_THREAD | ERROR

text \<open>
  The macro \<^verbatim>\<open>TEMP_FAILURE_RETRY\<close> of \<^verbatim>\<open>unistd.h\<close> evaluates a system call again
  while it returns \<open>-1\<close> with \<^verbatim>\<open>errno\<close> equal to \<^verbatim>\<open>EINTR\<close>. Its argument here is
  the list of what the successive evaluations of the call yield: the return
  value, \<^verbatim>\<open>errno\<close> after the call, and what the call stored. The macro yields the
  first evaluation that was not interrupted; when there is none the call is
  never answered.
\<close>

fun TEMP_FAILURE_RETRY :: "(int \<times> int \<times> 'a) list \<Rightarrow> (int \<times> int \<times> 'a) option" where
  "TEMP_FAILURE_RETRY [] = None"
| "TEMP_FAILURE_RETRY ((rc, errno, x) # later) =
     (if rc = - 1 \<and> errno = EINTR then TEMP_FAILURE_RETRY later else Some (rc, errno, x))"

text \<open>
  \<^verbatim>\<open>pipe(thread_fds)\<close>: the two new descriptors (read end, write end), which are
  not negative, or the \<^verbatim>\<open>errno\<close> of the failure.
\<close>

datatype pipe_answer = Pipe_created nat nat | Pipe_failed int

text \<open>\<^verbatim>\<open>WorkerThread::readyToRun\<close>.\<close>

definition readyToRun ::
  "pipe_answer \<Rightarrow> WorkerThread \<Rightarrow> world \<Rightarrow> status_t \<times> WorkerThread \<times> world" where
  "readyToRun answer t w =
     (case answer of
        Pipe_created rd wr \<Rightarrow>
          (NO_ERROR,
           t\<lparr>mThreadControl := int wr, mControlFD := int rd\<rparr>,
           w\<lparr>trace := trace w @ [Sys_pipe (int rd) (int wr)]\<rparr>)
      | Pipe_failed errno \<Rightarrow> (errno, t, w))"

text \<open>
  Modelled from the spec: \<^verbatim>\<open>startThread\<close> is declared in the absent header. It
  creates the signaling endpoint pair before the loop is entered (that is
  \<^verbatim>\<open>readyToRun\<close> of the source); a failure to create the pair is reported and
  aborts the start.
\<close>

definition startThread ::
  "pipe_answer \<Rightarrow> WorkerThread \<Rightarrow> world \<Rightarrow> status_t \<times> WorkerThread \<times> world" where
  "startThread answer t w = readyToRun answer t w"

text \<open>
  \<^verbatim>\<open>close(fd)\<close> on a member that is not negative, followed by the assignment of
  \<open>-1\<close>, as \<^verbatim>\<open>stopThread\<close> does for either endpoint.
\<close>

definition close_mThreadControl :: "WorkerThread \<times> world \<Rightarrow> WorkerThread \<times> world" where
  "close_mThreadControl tw =
     (case tw of (t, w) \<Rightarrow>
        if 0 \<le> mThreadControl t
        then (t\<lparr>mThreadControl := - 1\<rparr>, w\<lparr>trace := trace w @ [Sys_close (mThreadControl t)]\<rparr>)
        else (t, w))"

definition close_mControlFD :: "WorkerThread \<times> world \<Rightarrow> WorkerThread \<times> world" where
  "close_mControlFD tw =
     (case tw of (t, w) \<Rightarrow>
        if 0 \<le> mControlFD t
        then (t\<lparr>mControlFD := - 1\<rparr>, w\<lparr>trace := trace w @ [Sys_close (mControlFD t)]\<rparr>)
        else (t, w))"

text \<open>
  \<^verbatim>\<open>WorkerThread::stopThread\<close>. \<open>writes\<close> is what the evaluations of
  \<^verbatim>\<open>write(mThreadControl, &msg, sizeof(msg))\<close> yield; \<open>joined\<close> is the status of
  \<^verbatim>\<open>requestExitAndWait()\<close>, or \<open>None\<close> when the worker never exits.
\<close>

definition stopThread ::
  "(int \<times> int \<times> unit) list \<Rightarrow> status_t option \<Rightarrow> WorkerThread \<Rightarrow> world \<Rightarrow>
   (status_t \<times> WorkerThread \<times> world) outcome" where
  "stopThread writes joined t w =
     (if 0 \<le> mThreadControl t then
        (case TEMP_FAILURE_RETRY writes of
           None \<Rightarrow> Never_returns
         | Some (wres, errno, _) \<Rightarrow>
             let w1 = w\<lparr>trace := trace w @ [Sys_write (mThreadControl t) THREAD_STOP wres]\<rparr>
             in if wres = sizeof_ControlMessage then
                  (case joined of
                     None \<Rightarrow> Never_returns
                   | Some res \<Rightarrow>
                       let w2 = w1\<lparr>trace := trace w1 @ [Request_exit_and_wait res]\<rparr>
                       in if res = NO_ERROR then
                            (case close_mControlFD (close_mThreadControl (t, w2)) of
                               (t1, w3) \<Rightarrow> Returns (res, t1, w3))
                          else Returns (res, t, w2))
                else Returns (if errno \<noteq> 0 then errno else EINVAL, t, w1))
      else Returns (EINVAL, t, w))"

text \<open>
  \<^verbatim>\<open>select\<close> as the code uses it (read set only). While a call waits, the
  environment produces events: a signal interrupts the call, the call fails, some
  descriptors become readable, or the time of the timeout elapses. A call returns
  at an interrupt or a failure with \<open>-1\<close>; at readable descriptors, if some of
  them are watched (in the set and below \<open>nfds\<close>), with their number and the set
  of them; at elapsed time with \<open>0\<close>, but only when a timeout was given: with a
  null timeout the call waits on. \<open>sys_select\<close> lists what successive calls with
  the same arguments yield: the return value, \<^verbatim>\<open>errno\<close> (given as 0 after a call
  that did not fail, where the code does not read it) and the set as the call
  left it.
\<close>

datatype wait_event =
  Ev_interrupt | Ev_failure int | Ev_readable "int list" | Ev_time_elapsed

fun sys_select ::
  "int \<Rightarrow> int list \<Rightarrow> timeval option \<Rightarrow> wait_event list \<Rightarrow> (int \<times> int \<times> int list) list" where
  "sys_select nfds fds tvp [] = []"
| "sys_select nfds fds tvp (Ev_interrupt # later) =
     (- 1, EINTR, fds) # sys_select nfds fds tvp later"
| "sys_select nfds fds tvp (Ev_failure errno # later) =
     (- 1, errno, fds) # sys_select nfds fds tvp later"
| "sys_select nfds fds tvp (Ev_readable rs # later) =
     (let hit = filter (\<lambda>f. f < nfds \<and> f \<in> set rs) fds
      in if hit = [] then sys_select nfds fds tvp later
         else (int (length hit), 0, hit) # sys_select nfds fds tvp later)"
| "sys_select nfds fds tvp (Ev_time_elapsed # later) =
     (case tvp of
        None \<Rightarrow> sys_select nfds fds tvp later
      | Some tv \<Rightarrow> (0, 0, []) # sys_select nfds fds tvp later)"

text \<open>The descriptor sets: \<^verbatim>\<open>FD_ZERO\<close>, \<^verbatim>\<open>FD_SET\<close>, \<^verbatim>\<open>FD_ISSET\<close>.\<close>

definition FD_ZERO :: "int list" where
  "FD_ZERO = []"

definition FD_SET :: "int \<Rightarrow> int list \<Rightarrow> int list" where
  "FD_SET fd fds = List.insert fd fds"

definition FD_ISSET :: "int \<Rightarrow> int list \<Rightarrow> bool" where
  "FD_ISSET fd fds = (fd \<in> set fds)"

text \<open>
  The arguments \<^verbatim>\<open>WorkerThread::Select\<close> builds for \<^verbatim>\<open>select\<close>: the number of
  descriptors, the read set and the timeout pointer (\<open>None\<close> is the null
  pointer). \<^verbatim>\<open>/\<close> and \<^verbatim>\<open>%\<close> on \<^verbatim>\<open>int\<close> truncate towards zero.
\<close>

definition Select_fd_num :: "WorkerThread \<Rightarrow> int \<Rightarrow> int" where
  "Select_fd_num t fd = (if 0 \<le> fd then max fd (mControlFD t) + 1 else mControlFD t + 1)"

definition Select_fds :: "WorkerThread \<Rightarrow> int \<Rightarrow> int list" where
  "Select_fds t fd =
     (let fds = FD_SET (mControlFD t) FD_ZERO
      in if 0 \<le> fd then FD_SET fd fds else fds)"

definition Select_tvp :: "int \<Rightarrow> timeval option" where
  "Select_tvp timeout =
     (if timeout \<noteq> 0
      then Some \<lparr>tv_sec = timeout sdiv 1000000, tv_usec = timeout smod 1000000\<rparr>
      else None)"

text \<open>
  \<^verbatim>\<open>WorkerThread::Select\<close>. \<open>events\<close> is what happens while \<^verbatim>\<open>select\<close> waits;
  \<open>reads\<close> is what the evaluations of \<^verbatim>\<open>read(mControlFD, &msg, sizeof(msg))\<close>
  yield, each with the value it stores in \<^verbatim>\<open>msg\<close>.
\<close>

definition Select ::
  "int \<Rightarrow> int \<Rightarrow> wait_event list \<Rightarrow> (int \<times> int \<times> int) list \<Rightarrow> WorkerThread \<Rightarrow> world \<Rightarrow>
   (SelectRes \<times> world) outcome" where
  "Select fd timeout events reads t w =
     (let fd_num = Select_fd_num t fd;
          fds = Select_fds t fd;
          tvp = Select_tvp timeout
      in case TEMP_FAILURE_RETRY (sys_select fd_num fds tvp events) of
           None \<Rightarrow> Never_returns
         | Some (res, errno, ready) \<Rightarrow>
             let w1 = w\<lparr>trace := trace w @ [Sys_select fd_num fds tvp res]\<rparr>
             in if res < 0 then Returns (ERROR, w1)
                else if res = 0 then Returns (TIMEOUT, w1)
                else if FD_ISSET (mControlFD t) ready then
                  (case TEMP_FAILURE_RETRY reads of
                     None \<Rightarrow> Never_returns
                   | Some (rres, rerrno, msg) \<Rightarrow>
                       let w2 = w1\<lparr>trace := trace w1 @ [Sys_read (mControlFD t) rres]\<rparr>
                       in if rres \<noteq> sizeof_ControlMessage then Returns (ERROR, w2)
                          else if msg = THREAD_STOP then Returns (EXIT_THREAD, w2)
                          else Returns (ERROR, w2))
                else Returns (READY, w1))"

subsection \<open>Worker thread management\<close>

text \<open>
  \<^verbatim>\<open>startWorkerThread\<close> and \<^verbatim>\<open>stopWorkerThread\<close>. Calling through a null worker
  thread pointer is undefined.
\<close>

definition startWorkerThread ::
  "pipe_answer \<Rightarrow> EmulatedCameraDevice \<Rightarrow> world \<Rightarrow>
   (status_t \<times> EmulatedCameraDevice \<times> world) outcome" where
  "startWorkerThread answer d w =
     (if \<not> isInitialized d then Returns (EINVAL, d, w)
      else
        (case getWorkerThread d of
           None \<Rightarrow> Undefined_behaviour
         | Some t \<Rightarrow>
             (case startThread answer t w of
                (ret, t1, w1) \<Rightarrow> Returns (ret, d\<lparr>mWorkerThread := Some t1\<rparr>, w1))))"

definition stopWorkerThread ::
  "(int \<times> int \<times> unit) list \<Rightarrow> status_t option \<Rightarrow> EmulatedCameraDevice \<Rightarrow> world \<Rightarrow>
   (status_t \<times> EmulatedCameraDevice \<times> world) outcome" where
  "stopWorkerThread writes joined d w =
     (if \<not> isInitialized d then Returns (EINVAL, d, w)
      else
        (case getWorkerThread d of
           None \<Rightarrow> Undefined_behaviour
         | Some t \<Rightarrow>
             (case stopThread writes joined t w of
                Returns (res, t1, w1) \<Rightarrow> Returns (NO_ERROR, d\<lparr>mWorkerThread := Some t1\<rparr>, w1)
              | Undefined_behaviour \<Rightarrow> Undefined_behaviour
              | Never_returns \<Rightarrow> Never_returns)))"

section \<open>Observations and example objects\<close>

text \<open>The number of worker thread objects the log shows as created.\<close>

definition workers_created :: "world \<Rightarrow> nat" where
  "workers_created w = length (filter (\<lambda>e. e = New_WorkerThread) (trace w))"

text \<open>
  The device \<^verbatim>\<open>startCapturing\<close> hands to the start hook when the pixel format is
  supported and the array was allocated at address \<open>a\<close>, and the world after that
  allocation.
\<close>

definition device_at_startDevice ::
  "int32 \<Rightarrow> int32 \<Rightarrow> addr \<Rightarrow> EmulatedCameraDevice \<Rightarrow> EmulatedCameraDevice" where
  "device_at_startDevice width height a d =
     d\<lparr>mFrameBufferSize := int32_div (width * height * 12) 8,
       mFrameWidth := width, mFrameHeight := height,
       mPixelFormat := V4L2_PIX_FMT_YVU420, mTotalPixels := width * height,
       mCurrentFrame := Some a,
       mFrameU := Some (a, sint (width * height)),
       mFrameV := Some (a, sint (width * height) + sint (int32_div (width * height) 4))\<rparr>"

definition world_after_new :: "(nat \<Rightarrow> byte) \<Rightarrow> int32 \<Rightarrow> int32 \<Rightarrow> world \<Rightarrow> world" where
  "world_after_new junk width height w =
     w\<lparr>cells := (cells w)(brk w \<mapsto> map junk [0..<unat (int32_div (width * height * 12) 8)]),
       brk := Suc (brk w),
       trace := trace w @ [New_array (brk w) (unat (int32_div (width * height * 12) 8))]\<rparr>"

text \<open>
  What the wait of \<^verbatim>\<open>Select\<close> yields (the retried \<^verbatim>\<open>select\<close>), and the world after
  the wait and after the read of the control message.
\<close>

definition Select_wait ::
  "WorkerThread \<Rightarrow> int \<Rightarrow> int \<Rightarrow> wait_event list \<Rightarrow> (int \<times> int \<times> int list) option" where
  "Select_wait t fd timeout events =
     TEMP_FAILURE_RETRY
       (sys_select (Select_fd_num t fd) (Select_fds t fd) (Select_tvp timeout) events)"

definition after_select :: "WorkerThread \<Rightarrow> int \<Rightarrow> int \<Rightarrow> int \<Rightarrow> world \<Rightarrow> world" where
  "after_select t fd timeout res w =
     w\<lparr>trace := trace w @
        [Sys_select (Select_fd_num t fd) (Select_fds t fd) (Select_tvp timeout) res]\<rparr>"

definition after_read :: "WorkerThread \<Rightarrow> int \<Rightarrow> world \<Rightarrow> world" where
  "after_read t rres w = w\<lparr>trace := trace w @ [Sys_read (mControlFD t) rres]\<rparr>"

text \<open>A worker thread with open endpoints: write end 4, read end 3.\<close>

definition running_worker :: WorkerThread where
  "running_worker = \<lparr>mThreadControl = 4, mControlFD = 3\<rparr>"

text \<open>
  Sequences of start and stop requests to a worker thread, each with what the
  environment answers, and the consistency of the two endpoint members: both
  open (not negative) or both closed (\<open>-1\<close>).
\<close>

datatype worker_op =
  Start_thread pipe_answer | Stop_thread "(int \<times> int \<times> unit) list" "status_t option"

fun run_worker_ops :: "worker_op list \<Rightarrow> WorkerThread \<Rightarrow> world \<Rightarrow> (WorkerThread \<times> world) outcome" where
  "run_worker_ops [] t w = Returns (t, w)"
| "run_worker_ops (Start_thread answer # ops) t w =
     (case startThread answer t w of (res, t1, w1) \<Rightarrow> run_worker_ops ops t1 w1)"
| "run_worker_ops (Stop_thread writes joined # ops) t w =
     (case stopThread writes joined t w of
        Returns (res, t1, w1) \<Rightarrow> run_worker_ops ops t1 w1
      | Undefined_behaviour \<Rightarrow> Undefined_behaviour
      | Never_returns \<Rightarrow> Never_returns)"

definition endpoints_consistent :: "WorkerThread \<Rightarrow> bool" where
  "endpoints_consistent t =
     ((0 \<le> mThreadControl t \<and> 0 \<le> mControlFD t) \<or>
      (mThreadControl t = - 1 \<and> mControlFD t = - 1))"

text \<open>An empty world, and a device as the constructor leaves it.\<close>

definition world0 :: world where
  "world0 = \<lparr>cells = (\<lambda>a. None), brk = 1, trace = []\<rparr>"

definition device0 :: EmulatedCameraDevice where
  "device0 = EmulatedCameraDevice_ctor
     \<lparr>mCurFrameTimestamp = 0, mCurrentFrame = None, mState = ECDS_CONSTRUCTED,
      mWorkerThread = None, mFrameBufferSize = 0, mFrameWidth = 0, mFrameHeight = 0,
      mPixelFormat = 0, mTotalPixels = 0, mFrameU = None, mFrameV = None\<rparr>"

text \<open>The device after a successful \<^verbatim>\<open>Initialize\<close>.\<close>

definition initialized_device :: EmulatedCameraDevice where
  "initialized_device =
     device0\<lparr>mWorkerThread := Some WorkerThread_ctor, mState := ECDS_INITIALIZED\<rparr>"

text \<open>
  Device-specific hooks: one that starts the capture, one that stops it, one that
  fails, one that succeeds without touching the object, and one that refuses a
  device that is not initialized.
\<close>

definition hook_starts :: hook where
  "hook_starts d = (NO_ERROR, d\<lparr>mState := ECDS_STARTED\<rparr>)"

definition hook_stops :: hook where
  "hook_stops d = (NO_ERROR, d\<lparr>mState := ECDS_STOPPED\<rparr>)"

definition hook_rejects :: hook where
  "hook_rejects d = (EINVAL, d)"

definition hook_accepts_idly :: hook where
  "hook_accepts_idly d = (NO_ERROR, d)"

definition hook_checks_state :: hook where
  "hook_checks_state d =
     (if isInitialized d then (NO_ERROR, d\<lparr>mState := ECDS_STARTED\<rparr>) else (EINVAL, d))"

text \<open>
  A capturing device with a 2x2 frame at address 1, and a world that holds the
  frame and a caller's array of eight bytes at address 2.
\<close>

definition capturing_device :: EmulatedCameraDevice where
  "capturing_device =
     \<lparr>mCurFrameTimestamp = 0, mCurrentFrame = Some 1, mState = ECDS_STARTED,
      mWorkerThread = Some WorkerThread_ctor, mFrameBufferSize = 6, mFrameWidth = 2,
      mFrameHeight = 2, mPixelFormat = V4L2_PIX_FMT_YVU420, mTotalPixels = 4,
      mFrameU = Some (1, 4), mFrameV = Some (1, 5)\<rparr>"

definition capturing_world :: world where
  "capturing_world =
     \<lparr>cells = (\<lambda>a. if a = 1 then Some [10, 20, 30, 40, 50, 60]
                      else if a = 2 then Some [0, 0, 0, 0, 0, 0, 7, 7] else None),
      brk = 3, trace = []\<rparr>"

section \<open>Properties\<close>

lemmas status_defs = NO_ERROR_def EINTR_def ENOMEM_def EINVAL_def

subsection \<open>Initialize\<close>

lemma Initialize_again:
  "Initialize a d w = (NO_ERROR, d1, w1) \<Longrightarrow> Initialize b d1 w1 = (NO_ERROR, d1, w1)"
  by (auto simp: Initialize_def isInitialized_def getWorkerThread_def Let_def status_defs
      split: if_splits)

text \<open>
  Claim C9. \<^verbatim>\<open>Initialize\<close> is idempotent: when a call has succeeded, a second call
  succeeds and changes neither the device nor the world; and when the device was
  not initialized before the first call, the two calls together create exactly
  one worker thread object.
\<close>

theorem C9_Initialize_idempotent:
  assumes "Initialize a d w = (NO_ERROR, d1, w1)"
    and "Initialize b d1 w1 = (s2, d2, w2)"
  shows "s2 = NO_ERROR \<and> d2 = d1 \<and> w2 = w1 \<and>
         (\<not> isInitialized d \<longrightarrow> workers_created w2 = workers_created w + 1)"
proof -
  have again: "Initialize b d1 w1 = (NO_ERROR, d1, w1)"
    using assms(1) by (rule Initialize_again)
  have "\<not> isInitialized d \<Longrightarrow> trace w1 = trace w @ [New_WorkerThread]"
    using assms(1)
    by (auto simp: Initialize_def getWorkerThread_def Let_def status_defs split: if_splits)
  then show ?thesis
    using again assms(2) by (simp add: workers_created_def)
qed

text \<open>The two calls on a device fresh from the constructor.\<close>

theorem C9_witness:
  "Initialize True device0 world0 =
     (NO_ERROR, device0\<lparr>mWorkerThread := Some WorkerThread_ctor, mState := ECDS_INITIALIZED\<rparr>,
      world0\<lparr>trace := [New_WorkerThread]\<rparr>) \<and>
   Initialize True (device0\<lparr>mWorkerThread := Some WorkerThread_ctor, mState := ECDS_INITIALIZED\<rparr>)
      (world0\<lparr>trace := [New_WorkerThread]\<rparr>) =
     (NO_ERROR, device0\<lparr>mWorkerThread := Some WorkerThread_ctor, mState := ECDS_INITIALIZED\<rparr>,
      world0\<lparr>trace := [New_WorkerThread]\<rparr>) \<and>
   \<not> isInitialized device0 \<and>
   workers_created (world0\<lparr>trace := [New_WorkerThread]\<rparr>) = workers_created world0 + 1"
proof -
  have first: "Initialize True device0 world0 =
     (NO_ERROR, device0\<lparr>mWorkerThread := Some WorkerThread_ctor, mState := ECDS_INITIALIZED\<rparr>,
      world0\<lparr>trace := [New_WorkerThread]\<rparr>)"
    by (simp add: Initialize_def isInitialized_def getWorkerThread_def device0_def
        EmulatedCameraDevice_ctor_def world0_def Let_def)
  have fresh: "\<not> isInitialized device0"
    by (simp add: isInitialized_def device0_def EmulatedCameraDevice_ctor_def)
  have second:
    "Initialize True (device0\<lparr>mWorkerThread := Some WorkerThread_ctor, mState := ECDS_INITIALIZED\<rparr>)
      (world0\<lparr>trace := [New_WorkerThread]\<rparr>) =
     (NO_ERROR, device0\<lparr>mWorkerThread := Some WorkerThread_ctor, mState := ECDS_INITIALIZED\<rparr>,
      world0\<lparr>trace := [New_WorkerThread]\<rparr>)"
    by (simp add: Initialize_def isInitialized_def)
  from C9_Initialize_idempotent [OF first second] fresh first second
  show ?thesis by blast
qed

subsection \<open>Operations before Initialize\<close>

text \<open>
  Claim C1, as amended. On a device that is not initialized, \<^verbatim>\<open>getCurrentFrame\<close>,
  \<^verbatim>\<open>startWorkerThread\<close> and \<^verbatim>\<open>stopWorkerThread\<close> fail with \<^verbatim>\<open>EINVAL\<close> and change
  neither the device nor the world. \<^verbatim>\<open>startCapturing\<close> and \<^verbatim>\<open>stopCapturing\<close> do not
  look at the initialization state: \<^verbatim>\<open>startCapturing\<close> fails with \<^verbatim>\<open>EINVAL\<close> and
  without effect when the pixel format is not supported, and \<^verbatim>\<open>stopCapturing\<close>
  does nothing beyond its hook when the hook fails, returning the hook's status.
\<close>

theorem C1_before_Initialize:
  assumes "\<not> isInitialized d"
  shows "getCurrentFrame buffer d w = Returns (EINVAL, d, w) \<and>
         startWorkerThread pipe d w = Returns (EINVAL, d, w) \<and>
         stopWorkerThread writes joined d w = Returns (EINVAL, d, w) \<and>
         (pix_fmt \<noteq> V4L2_PIX_FMT_YVU420 \<longrightarrow>
            startCapturing startDevice answer width height pix_fmt d w = Returns (EINVAL, d, w)) \<and>
         (fst (stopDevice d) \<noteq> NO_ERROR \<longrightarrow>
            stopCapturing stopDevice d w = Returns (fst (stopDevice d), snd (stopDevice d), w))"
proof (intro conjI impI)
  have "\<not> isCapturing d"
    using assms by (simp add: isInitialized_def isCapturing_def)
  then show "getCurrentFrame buffer d w = Returns (EINVAL, d, w)"
    by (simp add: getCurrentFrame_def)
  show "startWorkerThread pipe d w = Returns (EINVAL, d, w)"
    using assms by (simp add: startWorkerThread_def)
  show "stopWorkerThread writes joined d w = Returns (EINVAL, d, w)"
    using assms by (simp add: stopWorkerThread_def)
next
  assume "pix_fmt \<noteq> V4L2_PIX_FMT_YVU420"
  then show "startCapturing startDevice answer width height pix_fmt d w = Returns (EINVAL, d, w)"
    by (simp add: startCapturing_def)
next
  assume "fst (stopDevice d) \<noteq> NO_ERROR"
  then show "stopCapturing stopDevice d w = Returns (fst (stopDevice d), snd (stopDevice d), w)"
    by (cases "stopDevice d") (simp add: stopCapturing_def)
qed

text \<open>The theorem on the device fresh from the constructor.\<close>

theorem C1_witness:
  "\<not> isInitialized device0 \<and>
   getCurrentFrame 2 device0 capturing_world = Returns (EINVAL, device0, capturing_world) \<and>
   startWorkerThread (Pipe_created 3 4) device0 world0 = Returns (EINVAL, device0, world0) \<and>
   stopWorkerThread [(4, 0, ())] (Some NO_ERROR) device0 world0 = Returns (EINVAL, device0, world0) \<and>
   startCapturing hook_starts (Some (\<lambda>i. 0)) 2 2 0 device0 world0 = Returns (EINVAL, device0, world0) \<and>
   stopCapturing hook_checks_state device0 world0 = Returns (EINVAL, device0, world0)"
proof -
  have fresh: "\<not> isInitialized device0"
    by (simp add: isInitialized_def device0_def EmulatedCameraDevice_ctor_def)
  have fmt: "(0 :: uint32) \<noteq> V4L2_PIX_FMT_YVU420"
    by (simp add: V4L2_PIX_FMT_YVU420_def)
  have hook: "hook_checks_state device0 = (EINVAL, device0)"
    using fresh by (simp add: hook_checks_state_def)
  have bad: "EINVAL \<noteq> NO_ERROR"
    by (simp add: status_defs)
  note t = C1_before_Initialize [OF fresh, where buffer = 2 and w = world0
      and pipe = "Pipe_created 3 4" and writes = "[(4, 0, ())]" and joined = "Some NO_ERROR"
      and pix_fmt = 0 and startDevice = hook_starts and answer = "Some (\<lambda>i. 0)"
      and width = 2 and height = 2 and stopDevice = hook_checks_state]
  note g = C1_before_Initialize [OF fresh, where buffer = 2 and w = capturing_world,
      THEN conjunct1]
  show ?thesis
    using t g fresh fmt bad by (simp add: hook)
qed

text \<open>
  The claim as stated fails for \<^verbatim>\<open>startCapturing\<close> and \<^verbatim>\<open>stopCapturing\<close>. On the
  device fresh from the constructor, \<^verbatim>\<open>startCapturing\<close> with the supported format
  overwrites the cached frame information and allocates the frame buffer before
  the hook is asked: with a hook that refuses the uninitialized device the buffer
  is freed again and the hook's status returned; with a hook that accepts, the
  call succeeds. \<^verbatim>\<open>stopCapturing\<close> succeeds when its hook does.
\<close>

theorem C1_counterexample:
  "\<not> isInitialized device0 \<and>
   startCapturing hook_checks_state (Some (\<lambda>i. 0)) 2 2 V4L2_PIX_FMT_YVU420 device0 world0 =
     Returns (EINVAL,
       device0\<lparr>mFrameBufferSize := 6, mFrameWidth := 2, mFrameHeight := 2,
         mPixelFormat := V4L2_PIX_FMT_YVU420, mTotalPixels := 4, mCurrentFrame := None,
         mFrameU := Some (1, 4), mFrameV := Some (1, 5)\<rparr>,
       world0\<lparr>brk := 2, trace := [New_array 1 6, Delete_array 1]\<rparr>) \<and>
   startCapturing hook_starts (Some (\<lambda>i. 0)) 2 2 V4L2_PIX_FMT_YVU420 device0 world0 =
     Returns (NO_ERROR,
       device0\<lparr>mFrameBufferSize := 6, mFrameWidth := 2, mFrameHeight := 2,
         mPixelFormat := V4L2_PIX_FMT_YVU420, mTotalPixels := 4, mCurrentFrame := Some 1,
         mFrameU := Some (1, 4), mFrameV := Some (1, 5), mState := ECDS_STARTED\<rparr>,
       world0\<lparr>cells := (cells world0)(1 \<mapsto> [0, 0, 0, 0, 0, 0]), brk := 2,
         trace := [New_array 1 6]\<rparr>) \<and>
   stopCapturing hook_stops device0 world0 =
     Returns (NO_ERROR, device0\<lparr>mState := ECDS_STOPPED\<rparr>, world0)"
proof (intro conjI)
  show "\<not> isInitialized device0"
    by (simp add: isInitialized_def device0_def EmulatedCameraDevice_ctor_def)
  show "startCapturing hook_checks_state (Some (\<lambda>i. 0)) 2 2 V4L2_PIX_FMT_YVU420 device0 world0 =
     Returns (EINVAL,
       device0\<lparr>mFrameBufferSize := 6, mFrameWidth := 2, mFrameHeight := 2,
         mPixelFormat := V4L2_PIX_FMT_YVU420, mTotalPixels := 4, mCurrentFrame := None,
         mFrameU := Some (1, 4), mFrameV := Some (1, 5)\<rparr>,
       world0\<lparr>brk := 2, trace := [New_array 1 6, Delete_array 1]\<rparr>)"
    by (simp add: startCapturing_def new_array_def delete_array_def int32_div_def world0_def
        Let_def status_defs device0_def EmulatedCameraDevice_ctor_def hook_checks_state_def
        isInitialized_def)
  show "startCapturing hook_starts (Some (\<lambda>i. 0)) 2 2 V4L2_PIX_FMT_YVU420 device0 world0 =
     Returns (NO_ERROR,
       device0\<lparr>mFrameBufferSize := 6, mFrameWidth := 2, mFrameHeight := 2,
         mPixelFormat := V4L2_PIX_FMT_YVU420, mTotalPixels := 4, mCurrentFrame := Some 1,
         mFrameU := Some (1, 4), mFrameV := Some (1, 5), mState := ECDS_STARTED\<rparr>,
       world0\<lparr>cells := (cells world0)(1 \<mapsto> [0, 0, 0, 0, 0, 0]), brk := 2,
         trace := [New_array 1 6]\<rparr>)"
    by (simp add: startCapturing_def new_array_def int32_div_def world0_def Let_def
        hook_starts_def upt_rec)
  show "stopCapturing hook_stops device0 world0 =
     Returns (NO_ERROR, device0\<lparr>mState := ECDS_STOPPED\<rparr>, world0)"
    by (simp add: stopCapturing_def hook_stops_def device0_def EmulatedCameraDevice_ctor_def)
qed

subsection \<open>Frame buffer layout\<close>

lemma startCapturing_allocated:
  "startCapturing startDevice (Some junk) width height V4L2_PIX_FMT_YVU420 d w =
     (case startDevice (device_at_startDevice width height (brk w) d) of
        (res, d6) \<Rightarrow>
          if res = NO_ERROR
          then Returns (res, d6, world_after_new junk width height w)
          else (case mCurrentFrame d6 of
                  None \<Rightarrow> Returns (res, d6\<lparr>mCurrentFrame := None\<rparr>,
                            world_after_new junk width height w)
                | Some q \<Rightarrow>
                    (case delete_array q (world_after_new junk width height w) of
                       None \<Rightarrow> Undefined_behaviour
                     | Some w2 \<Rightarrow> Returns (res, d6\<lparr>mCurrentFrame := None\<rparr>, w2))))"
  by (simp add: startCapturing_def new_array_def device_at_startDevice_def
      world_after_new_def Let_def split: prod.splits option.splits)

lemma startCapturing_no_memory:
  "startCapturing startDevice None width height V4L2_PIX_FMT_YVU420 d w =
     Returns (ENOMEM,
       d\<lparr>mFrameBufferSize := int32_div (width * height * 12) 8,
         mFrameWidth := width, mFrameHeight := height,
         mPixelFormat := V4L2_PIX_FMT_YVU420, mTotalPixels := width * height,
         mCurrentFrame := None\<rparr>, w)"
  by (simp add: startCapturing_def new_array_def Let_def)

lemma sint_mult_in_range:
  fixes a b :: int32
  assumes "- (2 ^ 31) \<le> sint a * sint b" and "sint a * sint b < 2 ^ 31"
  shows "sint (a * b) = sint a * sint b"
  using assms by (simp add: sint_word_mult signed_take_bit_int_eq_self)

lemma sdiv_int32_range:
  fixes x :: int
  assumes "- (2 ^ 31) \<le> x" and "x < 2 ^ 31"
  shows "- (2 ^ 31) \<le> x sdiv 8 \<and> x sdiv 8 < 2 ^ 31"
    and "- (2 ^ 31) \<le> x sdiv 4 \<and> x sdiv 4 < 2 ^ 31"
  using assms by (auto simp: signed_divide_int_def sgn_if)

lemma sint_int32_div:
  fixes a :: int32
  shows "sint (int32_div a 8) = sint a sdiv 8" and "sint (int32_div a 4) = sint a sdiv 4"
proof -
  have r: "- (2 ^ 31) \<le> sint a" "sint a < 2 ^ 31"
    using sint_ge [of a] sint_lt [of a] by simp_all
  note b = sdiv_int32_range [OF r]
  show "sint (int32_div a 8) = sint a sdiv 8"
    using b(1) by (simp add: int32_div_def sint_sbintrunc' signed_take_bit_int_eq_self)
  show "sint (int32_div a 4) = sint a sdiv 4"
    using b(2) by (simp add: int32_div_def sint_sbintrunc' signed_take_bit_int_eq_self)
qed

lemma frame_geometry:
  fixes width height :: int32
  assumes lo: "- (2 ^ 31) \<le> sint width * sint height * 12"
    and hi: "sint width * sint height * 12 < 2 ^ 31"
  shows "sint (width * height) = sint width * sint height"
    and "sint (int32_div (width * height * 12) 8) = (sint width * sint height * 12) sdiv 8"
    and "sint (int32_div (width * height) 4) = (sint width * sint height) sdiv 4"
proof -
  have p: "- (2 ^ 31) \<le> sint width * sint height" "sint width * sint height < 2 ^ 31"
    using lo hi by linarith+
  show wh: "sint (width * height) = sint width * sint height"
    using p by (rule sint_mult_in_range)
  have "sint (width * height * 12) = sint (width * height) * sint (12 :: int32)"
    by (rule sint_mult_in_range) (use lo hi wh in simp_all)
  then have "sint (width * height * 12) = sint width * sint height * 12"
    using wh by simp
  then show "sint (int32_div (width * height * 12) 8) = (sint width * sint height * 12) sdiv 8"
    by (simp add: sint_int32_div)
  show "sint (int32_div (width * height) 4) = (sint width * sint height) sdiv 4"
    using wh by (simp add: sint_int32_div)
qed

lemma unat_nonneg_sint:
  fixes x :: int32
  assumes "0 \<le> sint x"
  shows "unat x = nat (sint x)"
proof -
  have "sint x < 2 ^ 32"
    using sint_lt [of x] by simp
  then have "take_bit 32 (sint x) = sint x"
    using assms by (simp add: take_bit_int_eq_self)
  then have "uint x = sint x"
    by (simp add: uint_sint)
  then show ?thesis
    by (simp add: unat_eq_nat_uint)
qed

lemma sdiv_nonneg:
  "0 \<le> (x::int) \<Longrightarrow> x sdiv 8 = x div 8 \<and> x sdiv 4 = x div 4"
  by (cases "x = 0") (simp_all add: signed_divide_int_def sgn_if)

text \<open>
  Claim C7, as amended. When \<open>width * height * 12\<close> does not overflow \<^verbatim>\<open>int\<close> and
  \<^verbatim>\<open>startCapturing\<close> succeeds with the supported format, the device handed to the
  start hook has the byte size \<open>width * height * 12 / 8\<close>, the first chroma plane at
  offset \<open>width * height\<close> of the frame buffer and the second at
  \<open>width * height + width * height / 4\<close>, where \<open>/\<close> is C's division on \<^verbatim>\<open>int\<close>
  (\<open>sdiv\<close>); for a product that is not negative this is the quotient \<open>div\<close>, and
  the allocated array has that many bytes.
\<close>

theorem C7_frame_layout:
  assumes lo: "- (2 ^ 31) \<le> sint width * sint height * 12"
    and hi: "sint width * sint height * 12 < 2 ^ 31"
    and ok: "startCapturing startDevice (Some junk) width height V4L2_PIX_FMT_YVU420 d w =
               Returns (NO_ERROR, d', w')"
  shows "startDevice (device_at_startDevice width height (brk w) d) = (NO_ERROR, d') \<and>
         sint (mFrameBufferSize (device_at_startDevice width height (brk w) d)) =
           (sint width * sint height * 12) sdiv 8 \<and>
         mCurrentFrame (device_at_startDevice width height (brk w) d) = Some (brk w) \<and>
         mFrameU (device_at_startDevice width height (brk w) d) =
           Some (brk w, sint width * sint height) \<and>
         mFrameV (device_at_startDevice width height (brk w) d) =
           Some (brk w, sint width * sint height + (sint width * sint height) sdiv 4) \<and>
         (0 \<le> sint width * sint height \<longrightarrow>
            (sint width * sint height * 12) sdiv 8 = (sint width * sint height * 12) div 8 \<and>
            (sint width * sint height) sdiv 4 = (sint width * sint height) div 4 \<and>
            map_option length (cells w' (brk w)) =
              Some (nat ((sint width * sint height * 12) div 8)))"
proof -
  note g = frame_geometry [OF lo hi]
  obtain res d6 where h: "startDevice (device_at_startDevice width height (brk w) d) = (res, d6)"
    by (cases "startDevice (device_at_startDevice width height (brk w) d)")
  have r: "res = NO_ERROR \<and> d6 = d' \<and> w' = world_after_new junk width height w"
    using ok h
    by (auto simp: startCapturing_allocated status_defs split: if_splits option.splits)
  have fields:
    "sint (mFrameBufferSize (device_at_startDevice width height (brk w) d)) =
       (sint width * sint height * 12) sdiv 8"
    "mCurrentFrame (device_at_startDevice width height (brk w) d) = Some (brk w)"
    "mFrameU (device_at_startDevice width height (brk w) d) =
       Some (brk w, sint width * sint height)"
    "mFrameV (device_at_startDevice width height (brk w) d) =
       Some (brk w, sint width * sint height + (sint width * sint height) sdiv 4)"
    by (simp_all add: device_at_startDevice_def g)
  have nonneg: "(sint width * sint height * 12) sdiv 8 = (sint width * sint height * 12) div 8 \<and>
            (sint width * sint height) sdiv 4 = (sint width * sint height) div 4 \<and>
            map_option length (cells w' (brk w)) =
              Some (nat ((sint width * sint height * 12) div 8))"
    if p: "0 \<le> sint width * sint height"
  proof -
    define P where "P = sint width * sint height"
    have P: "0 \<le> P" "0 \<le> P * 12"
      using p by (simp_all add: P_def)
    have d8: "(P * 12) sdiv 8 = (P * 12) div 8"
      using P(2) by (rule sdiv_nonneg [THEN conjunct1])
    have d4: "P sdiv 4 = P div 4"
      using P(1) by (rule sdiv_nonneg [THEN conjunct2])
    have s: "sint (int32_div (width * height * 12) 8) = (P * 12) div 8"
      using g(2) d8 by (simp only: P_def)
    have "0 \<le> (P * 12) div 8"
      using P(2) by (simp only: pos_imp_zdiv_nonneg_iff [of 8, simplified])
    then have "unat (int32_div (width * height * 12) 8) = nat ((P * 12) div 8)"
      using s by (simp only: unat_nonneg_sint)
    then have "map_option length (cells w' (brk w)) = Some (nat ((P * 12) div 8))"
      using r by (simp add: world_after_new_def)
    with d8 d4 show ?thesis by (simp only: P_def simp_thms)
  qed
  show ?thesis
    using h r fields nonneg by simp
qed

text \<open>The 176x144 frame of the spec: 38016 bytes, chroma planes at 25344 and 31680.\<close>

theorem C7_witness:
  "- (2 ^ 31) \<le> sint (176 :: int32) * sint (144 :: int32) * 12 \<and>
   sint (176 :: int32) * sint (144 :: int32) * 12 < 2 ^ 31 \<and>
   startCapturing hook_starts (Some (\<lambda>i. 0)) 176 144
       V4L2_PIX_FMT_YVU420 initialized_device world0 =
     Returns (NO_ERROR,
       (device_at_startDevice 176 144 1 initialized_device)\<lparr>mState := ECDS_STARTED\<rparr>,
       world_after_new (\<lambda>i. 0) 176 144 world0) \<and>
   sint (mFrameBufferSize (device_at_startDevice 176 144 1 initialized_device)) = 38016 \<and>
   mFrameU (device_at_startDevice 176 144 1 initialized_device) = Some (1, 25344) \<and>
   mFrameV (device_at_startDevice 176 144 1 initialized_device) = Some (1, 31680) \<and>
   map_option length (cells (world_after_new (\<lambda>i. 0) 176 144 world0) 1) = Some 38016"
proof -
  have lo: "- (2 ^ 31) \<le> sint (176 :: int32) * sint (144 :: int32) * 12"
    and hi: "sint (176 :: int32) * sint (144 :: int32) * 12 < 2 ^ 31"
    by simp_all
  have b: "brk world0 = 1"
    by (simp add: world0_def)
  have ok: "startCapturing hook_starts (Some (\<lambda>i. 0)) 176 144
       V4L2_PIX_FMT_YVU420 initialized_device world0 =
     Returns (NO_ERROR,
       (device_at_startDevice 176 144 1 initialized_device)\<lparr>mState := ECDS_STARTED\<rparr>,
       world_after_new (\<lambda>i. 0) 176 144 world0)"
    by (simp add: startCapturing_allocated b hook_starts_def)
  show ?thesis
    using C7_frame_layout [OF lo hi ok] lo hi ok b by simp
qed

text \<open>
  The claim as stated fails where the product overflows: for a 65536x65536 frame
  \<open>width * height\<close> wraps around to 0, \<^verbatim>\<open>startCapturing\<close> succeeds with a byte size
  of 0 and both chroma planes at offset 0, while the formulas give 6442450944
  and 4294967296, which no \<^verbatim>\<open>int\<close> holds.
\<close>

theorem C7_counterexample:
  "startCapturing hook_starts (Some (\<lambda>i. 0)) 65536 65536
       V4L2_PIX_FMT_YVU420 initialized_device world0 =
     Returns (NO_ERROR,
       initialized_device\<lparr>mFrameBufferSize := 0, mFrameWidth := 65536, mFrameHeight := 65536,
         mPixelFormat := V4L2_PIX_FMT_YVU420, mTotalPixels := 0, mCurrentFrame := Some 1,
         mFrameU := Some (1, 0), mFrameV := Some (1, 0), mState := ECDS_STARTED\<rparr>,
       world0\<lparr>cells := (cells world0)(1 \<mapsto> []), brk := 2, trace := [New_array 1 0]\<rparr>) \<and>
   sint (65536 :: int32) * sint (65536 :: int32) * 12 div 8 = 6442450944 \<and>
   sint (65536 :: int32) * sint (65536 :: int32) = 4294967296"
  by (simp add: startCapturing_def new_array_def int32_div_def world0_def Let_def
      hook_starts_def)

subsection \<open>startCapturing: failure after the format check\<close>

text \<open>
  Claim C4, as amended. When the allocation fails, \<^verbatim>\<open>startCapturing\<close> returns
  \<^verbatim>\<open>ENOMEM\<close>, the frame pointer is null and the world is untouched. When the start
  hook fails and has kept the frame pointer, its status is returned unchanged, the
  array the call allocated is deleted and the frame pointer is null. In both cases
  the cached size, width, height, format and pixel count hold the requested values
  (on hook failure the device is what the hook returned, with the frame pointer
  null): the earlier values are not restored, and \<^verbatim>\<open>startCapturing\<close> itself never
  assigns the state member.
\<close>

theorem C4_startCapturing_failure:
  "startCapturing startDevice None width height V4L2_PIX_FMT_YVU420 d w =
     Returns (ENOMEM,
       d\<lparr>mFrameBufferSize := int32_div (width * height * 12) 8,
         mFrameWidth := width, mFrameHeight := height,
         mPixelFormat := V4L2_PIX_FMT_YVU420, mTotalPixels := width * height,
         mCurrentFrame := None\<rparr>, w) \<and>
   (startDevice (device_at_startDevice width height (brk w) d) = (res, d6) \<and>
    res \<noteq> NO_ERROR \<and> mCurrentFrame d6 = Some (brk w) \<longrightarrow>
      startCapturing startDevice (Some junk) width height V4L2_PIX_FMT_YVU420 d w =
        Returns (res, d6\<lparr>mCurrentFrame := None\<rparr>,
          w\<lparr>cells := (cells w)(brk w := None),
            brk := Suc (brk w),
            trace := trace w @ [New_array (brk w) (unat (int32_div (width * height * 12) 8)),
                                Delete_array (brk w)]\<rparr>))"
proof (intro conjI impI)
  show "startCapturing startDevice None width height V4L2_PIX_FMT_YVU420 d w =
     Returns (ENOMEM,
       d\<lparr>mFrameBufferSize := int32_div (width * height * 12) 8,
         mFrameWidth := width, mFrameHeight := height,
         mPixelFormat := V4L2_PIX_FMT_YVU420, mTotalPixels := width * height,
         mCurrentFrame := None\<rparr>, w)"
    by (rule startCapturing_no_memory)
next
  assume a: "startDevice (device_at_startDevice width height (brk w) d) = (res, d6) \<and>
    res \<noteq> NO_ERROR \<and> mCurrentFrame d6 = Some (brk w)"
  have del: "delete_array (brk w) (world_after_new junk width height w) =
      Some (w\<lparr>cells := (cells w)(brk w := None),
            brk := Suc (brk w),
            trace := trace w @ [New_array (brk w) (unat (int32_div (width * height * 12) 8)),
                                Delete_array (brk w)]\<rparr>)"
    by (simp add: delete_array_def world_after_new_def)
  show "startCapturing startDevice (Some junk) width height V4L2_PIX_FMT_YVU420 d w =
        Returns (res, d6\<lparr>mCurrentFrame := None\<rparr>,
          w\<lparr>cells := (cells w)(brk w := None),
            brk := Suc (brk w),
            trace := trace w @ [New_array (brk w) (unat (int32_div (width * height * 12) 8)),
                                Delete_array (brk w)]\<rparr>)"
    using a by (simp add: startCapturing_allocated del)
qed

text \<open>A 2x2 frame on the initialized device, with a hook that fails.\<close>

theorem C4_witness:
  "startCapturing hook_rejects (Some (\<lambda>i. 0)) 2 2 V4L2_PIX_FMT_YVU420
       initialized_device world0 =
     Returns (EINVAL, (device_at_startDevice 2 2 1 initialized_device)\<lparr>mCurrentFrame := None\<rparr>,
       world0\<lparr>brk := 2, trace := [New_array 1 6, Delete_array 1]\<rparr>) \<and>
   EINVAL \<noteq> NO_ERROR \<and>
   mCurrentFrame (device_at_startDevice 2 2 1 initialized_device) = Some 1"
proof -
  have b: "brk world0 = 1" "trace world0 = []" "cells world0 = (\<lambda>a. None)"
    by (simp_all add: world0_def)
  have sz: "unat (int32_div (2 * 2 * 12) 8) = 6"
    by (simp add: int32_div_def)
  have pre: "hook_rejects (device_at_startDevice 2 2 (brk world0) initialized_device) =
      (EINVAL, device_at_startDevice 2 2 1 initialized_device) \<and>
    EINVAL \<noteq> NO_ERROR \<and>
    mCurrentFrame (device_at_startDevice 2 2 1 initialized_device) = Some (brk world0)"
    by (simp add: b status_defs device_at_startDevice_def hook_rejects_def)
  show ?thesis
    using C4_startCapturing_failure [where startDevice = hook_rejects and width = 2
        and height = 2 and w = world0 and d = initialized_device and res = EINVAL
        and ?d6.0 = "device_at_startDevice 2 2 1 initialized_device" and junk = "\<lambda>i. 0"]
      pre
    by (simp add: b int32_div_def world0_def)
qed

text \<open>
  The claim as stated fails: the initialized device caches width, height, size and
  format 0; after a failed \<^verbatim>\<open>startCapturing\<close> for a 2x2 frame (hook failure or no
  memory) it caches the values of the failed request, and after the hook failure
  the plane pointers point into the deleted array.
\<close>

theorem C4_counterexample:
  "startCapturing hook_rejects (Some (\<lambda>i. 0)) 2 2 V4L2_PIX_FMT_YVU420
       initialized_device world0 =
     Returns (EINVAL,
       initialized_device\<lparr>mFrameBufferSize := 6, mFrameWidth := 2, mFrameHeight := 2,
         mPixelFormat := V4L2_PIX_FMT_YVU420, mTotalPixels := 4, mCurrentFrame := None,
         mFrameU := Some (1, 4), mFrameV := Some (1, 5)\<rparr>,
       world0\<lparr>brk := 2, trace := [New_array 1 6, Delete_array 1]\<rparr>) \<and>
   startCapturing hook_rejects None 2 2 V4L2_PIX_FMT_YVU420 initialized_device world0 =
     Returns (ENOMEM,
       initialized_device\<lparr>mFrameBufferSize := 6, mFrameWidth := 2, mFrameHeight := 2,
         mPixelFormat := V4L2_PIX_FMT_YVU420, mTotalPixels := 4, mCurrentFrame := None\<rparr>,
       world0) \<and>
   mFrameWidth initialized_device = 0 \<and> mFrameHeight initialized_device = 0 \<and>
   mFrameBufferSize initialized_device = 0 \<and> mPixelFormat initialized_device = 0"
  by (simp add: startCapturing_def new_array_def delete_array_def int32_div_def world0_def
      Let_def status_defs initialized_device_def device0_def EmulatedCameraDevice_ctor_def
      hook_rejects_def)

subsection \<open>stopCapturing\<close>

lemma stopCapturing_hook_fails:
  "stopDevice d = (res, d1) \<Longrightarrow> res \<noteq> NO_ERROR \<Longrightarrow>
   stopCapturing stopDevice d w = Returns (res, d1, w)"
  by (simp add: stopCapturing_def)

lemma stopCapturing_no_buffer:
  "stopDevice d = (res, d1) \<Longrightarrow> res = NO_ERROR \<Longrightarrow> mCurrentFrame d1 = None \<Longrightarrow>
   stopCapturing stopDevice d w = Returns (res, d1, w)"
  by (simp add: stopCapturing_def)

lemma stopCapturing_frees:
  "stopDevice d = (res, d1) \<Longrightarrow> res = NO_ERROR \<Longrightarrow> mCurrentFrame d1 = Some q \<Longrightarrow>
   cells w q = Some bytes \<Longrightarrow>
   stopCapturing stopDevice d w =
     Returns (res, d1\<lparr>mCurrentFrame := None\<rparr>,
       w\<lparr>cells := (cells w)(q := None), trace := trace w @ [Delete_array q]\<rparr>)"
  by (simp add: stopCapturing_def delete_array_def)

lemma stopCapturing_dangling:
  "stopDevice d = (res, d1) \<Longrightarrow> res = NO_ERROR \<Longrightarrow> mCurrentFrame d1 = Some q \<Longrightarrow>
   cells w q = None \<Longrightarrow> stopCapturing stopDevice d w = Undefined_behaviour"
  by (simp add: stopCapturing_def delete_array_def)

text \<open>
  Claim C5, as amended. \<^verbatim>\<open>stopCapturing\<close> returns the status of the stop hook
  unchanged. When the hook fails, the device is as the hook left it and the world
  is untouched (the buffer is retained). When the hook succeeds, the frame buffer
  the device then holds is deleted and the frame pointer is null. \<^verbatim>\<open>stopCapturing\<close>
  itself never assigns the state member: whether the device is capturing
  afterwards is what the hook left.
\<close>

theorem C5_stopCapturing:
  "stopDevice d = (res, d1) \<Longrightarrow>
     (res \<noteq> NO_ERROR \<longrightarrow> stopCapturing stopDevice d w = Returns (res, d1, w)) \<and>
     (res = NO_ERROR \<and> mCurrentFrame d1 = None \<longrightarrow>
        stopCapturing stopDevice d w = Returns (res, d1, w)) \<and>
     (res = NO_ERROR \<and> mCurrentFrame d1 = Some q \<and> cells w q = Some bytes \<longrightarrow>
        stopCapturing stopDevice d w =
          Returns (res, d1\<lparr>mCurrentFrame := None\<rparr>,
            w\<lparr>cells := (cells w)(q := None), trace := trace w @ [Delete_array q]\<rparr>)) \<and>
     (stopCapturing stopDevice d w = Returns (s, d', w') \<longrightarrow>
        s = res \<and> mState d' = mState d1 \<and> isCapturing d' = isCapturing d1 \<and>
        (res = NO_ERROR \<longrightarrow> mCurrentFrame d' = None) \<and>
        (res \<noteq> NO_ERROR \<longrightarrow> d' = d1 \<and> w' = w))"
proof (intro conjI impI)
  assume h: "stopDevice d = (res, d1)" and r: "stopCapturing stopDevice d w = Returns (s, d', w')"
  have "s = res \<and> mState d' = mState d1 \<and> 
        (res = NO_ERROR \<longrightarrow> mCurrentFrame d' = None) \<and>
        (res \<noteq> NO_ERROR \<longrightarrow> d' = d1 \<and> w' = w)"
  proof (cases "res = NO_ERROR")
    case False
    then show ?thesis
      using r stopCapturing_hook_fails [where stopDevice = stopDevice and d = d and w = w, OF h False] by simp
  next
    case True
    show ?thesis
    proof (cases "mCurrentFrame d1")
      case None
      then show ?thesis
        using r True stopCapturing_no_buffer [where stopDevice = stopDevice and d = d and w = w, OF h True None] by simp
    next
      case (Some q)
      show ?thesis
      proof (cases "cells w q")
        case None
        then show ?thesis
          using r stopCapturing_dangling [where stopDevice = stopDevice and d = d and w = w, OF h True \<open>mCurrentFrame d1 = Some q\<close> None] by simp
      next
        case (Some bytes)
        then show ?thesis
          using r True stopCapturing_frees [where stopDevice = stopDevice and d = d and w = w, OF h True \<open>mCurrentFrame d1 = Some q\<close> Some] by auto
      qed
    qed
  qed
  then show "s = res" and "mState d' = mState d1" and "isCapturing d' = isCapturing d1"
    and "res = NO_ERROR \<Longrightarrow> mCurrentFrame d' = None"
    and "res \<noteq> NO_ERROR \<Longrightarrow> d' = d1" and "res \<noteq> NO_ERROR \<Longrightarrow> w' = w"
    by (simp_all add: isCapturing_def)
qed (simp_all add: stopCapturing_hook_fails stopCapturing_no_buffer stopCapturing_frees)

text \<open>The capturing device with a hook that stops the capture, and with one that fails.\<close>

theorem C5_witness:
  "stopCapturing hook_stops capturing_device capturing_world =
     Returns (NO_ERROR, capturing_device\<lparr>mState := ECDS_STOPPED, mCurrentFrame := None\<rparr>,
       capturing_world\<lparr>cells := (cells capturing_world)(1 := None), trace := [Delete_array 1]\<rparr>) \<and>
   stopCapturing hook_rejects capturing_device capturing_world =
     Returns (EINVAL, capturing_device, capturing_world) \<and>
   isCapturing capturing_device"
proof -
  have ok: "hook_stops capturing_device =
      (NO_ERROR, capturing_device\<lparr>mState := ECDS_STOPPED\<rparr>)"
    and bad: "hook_rejects capturing_device = (EINVAL, capturing_device)"
    by (simp_all add: hook_stops_def hook_rejects_def)
  have facts: "mCurrentFrame (capturing_device\<lparr>mState := ECDS_STOPPED\<rparr>) = Some 1"
    "cells capturing_world 1 = Some [10, 20, 30, 40, 50, 60]"
    "trace capturing_world = []" "EINVAL \<noteq> NO_ERROR" "isCapturing capturing_device"
    by (simp_all add: capturing_device_def capturing_world_def status_defs isCapturing_def)
  note frees = C5_stopCapturing [where stopDevice = hook_stops and d = capturing_device
        and w = capturing_world and q = 1 and bytes = "[10, 20, 30, 40, 50, 60]", OF ok,
        THEN conjunct2, THEN conjunct2, THEN conjunct1]
  note keeps = C5_stopCapturing [where stopDevice = hook_rejects and d = capturing_device
        and w = capturing_world, OF bad, THEN conjunct1]
  have "stopCapturing hook_stops capturing_device capturing_world =
     Returns (NO_ERROR, capturing_device\<lparr>mState := ECDS_STOPPED, mCurrentFrame := None\<rparr>,
       capturing_world\<lparr>cells := (cells capturing_world)(1 := None), trace := [Delete_array 1]\<rparr>)"
    using frees facts by simp
  moreover have "stopCapturing hook_rejects capturing_device capturing_world =
     Returns (EINVAL, capturing_device, capturing_world)"
    using keeps facts by simp
  ultimately show ?thesis
    using facts by simp
qed

text \<open>
  The claim as stated fails: with a stop hook that succeeds and leaves the state
  member alone, \<^verbatim>\<open>stopCapturing\<close> frees the buffer and the device is still
  capturing.
\<close>

theorem C5_counterexample:
  "stopCapturing hook_accepts_idly capturing_device capturing_world =
     Returns (NO_ERROR, capturing_device\<lparr>mCurrentFrame := None\<rparr>,
       capturing_world\<lparr>cells := (cells capturing_world)(1 := None), trace := [Delete_array 1]\<rparr>) \<and>
   isCapturing (capturing_device\<lparr>mCurrentFrame := None\<rparr>)"
  by (simp add: stopCapturing_def delete_array_def capturing_device_def capturing_world_def
      isCapturing_def status_defs hook_accepts_idly_def)

subsection \<open>getCurrentFrame\<close>

text \<open>
  Claim C6. \<^verbatim>\<open>getCurrentFrame\<close> fails with \<^verbatim>\<open>EINVAL\<close>, changing nothing, when the
  device is not capturing or the frame pointer is null. Otherwise, given that the
  frame buffer and the caller's array are distinct live arrays of at least the
  cached byte size, it returns \<^verbatim>\<open>NO_ERROR\<close>, leaves the device unchanged, and the
  caller's array holds the first byte-size bytes of the frame buffer followed by
  what it held beyond them. Whenever the call returns, the device is unchanged
  and the status is \<^verbatim>\<open>EINVAL\<close> exactly when the device is not capturing or the
  frame pointer is null.
\<close>

theorem C6_getCurrentFrame:
  "(\<not> isCapturing d \<or> mCurrentFrame d = None \<longrightarrow>
      getCurrentFrame buffer d w = Returns (EINVAL, d, w)) \<and>
   (isCapturing d \<and> mCurrentFrame d = Some src \<and>
    cells w src = Some frame \<and> cells w buffer = Some old \<and> buffer \<noteq> src \<and>
    unat (mFrameBufferSize d) \<le> length frame \<and> unat (mFrameBufferSize d) \<le> length old \<longrightarrow>
      getCurrentFrame buffer d w =
        Returns (NO_ERROR, d,
          w\<lparr>cells := (cells w)(buffer \<mapsto>
                 take (unat (mFrameBufferSize d)) frame @ drop (unat (mFrameBufferSize d)) old),
            trace := trace w @ [Memcpy buffer src (unat (mFrameBufferSize d))]\<rparr>)) \<and>
   (getCurrentFrame buffer d w = Returns (s, d', w') \<longrightarrow>
      d' = d \<and> (s = EINVAL \<longleftrightarrow> \<not> isCapturing d \<or> mCurrentFrame d = None))"
proof (intro conjI impI)
  assume "\<not> isCapturing d \<or> mCurrentFrame d = None"
  then show "getCurrentFrame buffer d w = Returns (EINVAL, d, w)"
    by (auto simp: getCurrentFrame_def)
next
  assume "isCapturing d \<and> mCurrentFrame d = Some src \<and>
    cells w src = Some frame \<and> cells w buffer = Some old \<and> buffer \<noteq> src \<and>
    unat (mFrameBufferSize d) \<le> length frame \<and> unat (mFrameBufferSize d) \<le> length old"
  then show "getCurrentFrame buffer d w =
        Returns (NO_ERROR, d,
          w\<lparr>cells := (cells w)(buffer \<mapsto>
                 take (unat (mFrameBufferSize d)) frame @ drop (unat (mFrameBufferSize d)) old),
            trace := trace w @ [Memcpy buffer src (unat (mFrameBufferSize d))]\<rparr>)"
    by (simp add: getCurrentFrame_def memcpy_def)
next
  assume "getCurrentFrame buffer d w = Returns (s, d', w')"
  then show "d' = d"
    by (auto simp: getCurrentFrame_def split: if_splits option.splits)
next
  assume "getCurrentFrame buffer d w = Returns (s, d', w')"
  then show "s = EINVAL \<longleftrightarrow> \<not> isCapturing d \<or> mCurrentFrame d = None"
    by (auto simp: getCurrentFrame_def status_defs split: if_splits option.splits)
qed

text \<open>A read of the 2x2 frame, and the two ways to fail.\<close>

theorem C6_witness:
  "getCurrentFrame 2 capturing_device capturing_world =
     Returns (NO_ERROR, capturing_device,
       capturing_world\<lparr>cells := (cells capturing_world)(2 \<mapsto> [10, 20, 30, 40, 50, 60, 7, 7]),
                       trace := [Memcpy 2 1 6]\<rparr>) \<and>
   getCurrentFrame 2 (capturing_device\<lparr>mState := ECDS_STOPPED\<rparr>) capturing_world =
     Returns (EINVAL, capturing_device\<lparr>mState := ECDS_STOPPED\<rparr>, capturing_world) \<and>
   getCurrentFrame 2 (capturing_device\<lparr>mCurrentFrame := None\<rparr>) capturing_world =
     Returns (EINVAL, capturing_device\<lparr>mCurrentFrame := None\<rparr>, capturing_world)"
proof -
  have pre: "isCapturing capturing_device \<and> mCurrentFrame capturing_device = Some 1 \<and>
    cells capturing_world 1 = Some [10, 20, 30, 40, 50, 60] \<and>
    cells capturing_world 2 = Some [0, 0, 0, 0, 0, 0, 7, 7] \<and> (2::nat) \<noteq> 1 \<and>
    unat (mFrameBufferSize capturing_device) \<le> length [10, 20, 30, 40, 50, 60 :: byte] \<and>
    unat (mFrameBufferSize capturing_device) \<le> length [0, 0, 0, 0, 0, 0, 7, 7 :: byte]"
    by (simp add: isCapturing_def capturing_device_def capturing_world_def)
  have size: "unat (mFrameBufferSize capturing_device) = 6"
    by (simp add: capturing_device_def)
  have stopped: "\<not> isCapturing (capturing_device\<lparr>mState := ECDS_STOPPED\<rparr>)"
    by (simp add: isCapturing_def)
  have nobuf: "mCurrentFrame (capturing_device\<lparr>mCurrentFrame := None\<rparr>) = None"
    by simp
  show ?thesis
    using C6_getCurrentFrame [where d = capturing_device and src = 1 and w = capturing_world
          and frame = "[10, 20, 30, 40, 50, 60]" and buffer = 2
          and old = "[0, 0, 0, 0, 0, 0, 7, 7]"]
      C6_getCurrentFrame [where d = "capturing_device\<lparr>mState := ECDS_STOPPED\<rparr>"
          and w = capturing_world and buffer = 2]
      C6_getCurrentFrame [where d = "capturing_device\<lparr>mCurrentFrame := None\<rparr>"
          and w = capturing_world and buffer = 2]
      pre size stopped nobuf
    by (simp add: capturing_world_def)
qed

subsection \<open>The worker thread's wait\<close>

lemma Select_unfold:
  "Select fd timeout events reads t w =
     (case Select_wait t fd timeout events of
        None \<Rightarrow> Never_returns
      | Some (res, errno, ready) \<Rightarrow>
          if res < 0 then Returns (ERROR, after_select t fd timeout res w)
          else if res = 0 then Returns (TIMEOUT, after_select t fd timeout res w)
          else if FD_ISSET (mControlFD t) ready then
            (case TEMP_FAILURE_RETRY reads of
               None \<Rightarrow> Never_returns
             | Some (rres, rerrno, msg) \<Rightarrow>
                 if rres \<noteq> sizeof_ControlMessage
                 then Returns (ERROR, after_read t rres (after_select t fd timeout res w))
                 else if msg = THREAD_STOP
                 then Returns (EXIT_THREAD, after_read t rres (after_select t fd timeout res w))
                 else Returns (ERROR, after_read t rres (after_select t fd timeout res w)))
          else Returns (READY, after_select t fd timeout res w))"
  by (simp add: Select_def Select_wait_def after_select_def after_read_def Let_def
      split: option.splits prod.splits)

text \<open>
  Claim C2. Let the retried \<^verbatim>\<open>select\<close> yield \<open>res\<close> and the set \<open>ready\<close>. If
  \<open>res\<close> is negative, \<^verbatim>\<open>Select\<close> returns \<^verbatim>\<open>ERROR\<close>; if it is 0, \<^verbatim>\<open>TIMEOUT\<close>. If the
  control descriptor is in \<open>ready\<close>, one control message is read (the log gains
  one read after the wait): the result is \<^verbatim>\<open>EXIT_THREAD\<close> when the read has the
  size of a message and the message is \<^verbatim>\<open>THREAD_STOP\<close>, and \<^verbatim>\<open>ERROR\<close> when the size
  is another or the message is another. Otherwise the result is \<^verbatim>\<open>READY\<close>.
\<close>

theorem C2_Select:
  assumes "Select_wait t fd timeout events = Some (res, errno, ready)"
  shows "(res < 0 \<longrightarrow>
            Select fd timeout events reads t w =
              Returns (ERROR, after_select t fd timeout res w)) \<and>
         (res = 0 \<longrightarrow>
            Select fd timeout events reads t w =
              Returns (TIMEOUT, after_select t fd timeout res w)) \<and>
         (0 < res \<and> FD_ISSET (mControlFD t) ready \<and>
          TEMP_FAILURE_RETRY reads = Some (rres, rerrno, msg) \<longrightarrow>
            (rres = sizeof_ControlMessage \<and> msg = THREAD_STOP \<longrightarrow>
               Select fd timeout events reads t w =
                 Returns (EXIT_THREAD, after_read t rres (after_select t fd timeout res w))) \<and>
            (rres \<noteq> sizeof_ControlMessage \<or> msg \<noteq> THREAD_STOP \<longrightarrow>
               Select fd timeout events reads t w =
                 Returns (ERROR, after_read t rres (after_select t fd timeout res w)))) \<and>
         (0 < res \<and> \<not> FD_ISSET (mControlFD t) ready \<longrightarrow>
            Select fd timeout events reads t w =
              Returns (READY, after_select t fd timeout res w))"
  using assms by (auto simp: Select_unfold)

text \<open>Each case on the running worker, waiting on descriptor 5 for 1000 microseconds.\<close>

theorem C2_witness:
  "Select 5 1000 [Ev_interrupt, Ev_failure 9] [] running_worker world0 =
     Returns (ERROR, after_select running_worker 5 1000 (- 1) world0) \<and>
   Select 5 1000 [Ev_time_elapsed] [] running_worker world0 =
     Returns (TIMEOUT, after_select running_worker 5 1000 0 world0) \<and>
   Select 5 1000 [Ev_readable [3]] [(- 1, EINTR, 7), (4, 0, THREAD_STOP)] running_worker world0 =
     Returns (EXIT_THREAD, after_read running_worker 4 (after_select running_worker 5 1000 1 world0)) \<and>
   Select 5 1000 [Ev_readable [3, 5]] [(4, 0, 7)] running_worker world0 =
     Returns (ERROR, after_read running_worker 4 (after_select running_worker 5 1000 2 world0)) \<and>
   Select 5 1000 [Ev_readable [3]] [(2, 0, THREAD_STOP)] running_worker world0 =
     Returns (ERROR, after_read running_worker 2 (after_select running_worker 5 1000 1 world0)) \<and>
   Select 5 1000 [Ev_readable [5]] [] running_worker world0 =
     Returns (READY, after_select running_worker 5 1000 1 world0)"
proof -
  have args: "Select_fd_num running_worker 5 = 6" "Select_fds running_worker 5 = [5, 3]"
    "mControlFD running_worker = 3"
    by (simp_all add: Select_fd_num_def Select_fds_def FD_SET_def FD_ZERO_def running_worker_def)
  have w1: "Select_wait running_worker 5 1000 [Ev_interrupt, Ev_failure 9] = Some (- 1, 9, [5, 3])"
    and w2: "Select_wait running_worker 5 1000 [Ev_time_elapsed] = Some (0, 0, [])"
    and w3: "Select_wait running_worker 5 1000 [Ev_readable [3]] = Some (1, 0, [3])"
    and w4: "Select_wait running_worker 5 1000 [Ev_readable [3, 5]] = Some (2, 0, [5, 3])"
    and w5: "Select_wait running_worker 5 1000 [Ev_readable [5]] = Some (1, 0, [5])"
    by (simp_all add: Select_wait_def args Select_tvp_def EINTR_def)
  have r1: "TEMP_FAILURE_RETRY [(- 1, EINTR, 7), (4, 0, THREAD_STOP)] = Some (4, 0, THREAD_STOP)"
    and r2: "TEMP_FAILURE_RETRY [(4, 0, 7 :: int)] = Some (4, 0, 7)"
    and r3: "TEMP_FAILURE_RETRY [(2, 0, THREAD_STOP)] = Some (2, 0, THREAD_STOP)"
    by (simp_all add: EINTR_def)
  have c: "sizeof_ControlMessage = 4" "(7 :: int) \<noteq> THREAD_STOP"
    "FD_ISSET 3 [3]" "FD_ISSET 3 [5, 3]" "\<not> FD_ISSET 3 [5]"
    by (simp_all add: sizeof_ControlMessage_def THREAD_STOP_def FD_ISSET_def)
  note e1 = C2_Select [OF w1, THEN conjunct1]
  note e2 = C2_Select [OF w2, THEN conjunct2, THEN conjunct1]
  note e3 = C2_Select [OF w3, where reads = "[(- 1, EINTR, 7), (4, 0, THREAD_STOP)]"
      and rres = 4 and rerrno = 0 and msg = THREAD_STOP,
      THEN conjunct2, THEN conjunct2, THEN conjunct1]
  note e4 = C2_Select [OF w4, where reads = "[(4, 0, 7)]" and rres = 4 and rerrno = 0 and msg = 7,
      THEN conjunct2, THEN conjunct2, THEN conjunct1]
  note e5 = C2_Select [OF w3, where reads = "[(2, 0, THREAD_STOP)]" and rres = 2 and rerrno = 0
      and msg = THREAD_STOP, THEN conjunct2, THEN conjunct2, THEN conjunct1]
  note e6 = C2_Select [OF w5, THEN conjunct2, THEN conjunct2, THEN conjunct2]
  show ?thesis
    using e1 e2 e3 e4 e5 e6 r1 r2 r3 c by (simp add: args)
qed

lemma TEMP_FAILURE_RETRY_mem:
  "TEMP_FAILURE_RETRY xs = Some x \<Longrightarrow> x \<in> set xs"
  by (induction xs rule: TEMP_FAILURE_RETRY.induct) (auto split: if_splits)

lemma sys_select_null_timeout:
  "(rc, errno, ready) \<in> set (sys_select nfds fds None events) \<Longrightarrow> rc \<noteq> 0"
proof (induction events)
  case Nil
  then show ?case by simp
next
  case (Cons e events)
  then show ?case
    by (cases e) (auto simp: Let_def split: if_splits)
qed

lemma Select_wait_null_timeout:
  "Select_wait t fd 0 events = Some (res, errno, ready) \<Longrightarrow> res \<noteq> 0"
  unfolding Select_wait_def Select_tvp_def
  using TEMP_FAILURE_RETRY_mem sys_select_null_timeout by fastforce

lemma Select_time_passes:
  "Select fd 0 (Ev_time_elapsed # events) reads t w = Select fd 0 events reads t w"
  by (simp add: Select_unfold Select_wait_def Select_tvp_def)

text \<open>
  Claim C10. For the timeout 0, \<^verbatim>\<open>Select\<close> passes the null pointer to \<^verbatim>\<open>select\<close>;
  the wait then does not return however much time elapses, elapsed time before
  other events changes nothing, and so \<^verbatim>\<open>Select\<close> returns \<^verbatim>\<open>TIMEOUT\<close> only for a
  timeout that is not 0.
\<close>

theorem C10_zero_timeout:
  "Select_tvp 0 = None \<and>
   Select fd 0 (replicate n Ev_time_elapsed) reads t w = Never_returns \<and>
   Select fd 0 (replicate n Ev_time_elapsed @ events) reads t w = Select fd 0 events reads t w \<and>
   (Select fd timeout events reads t w = Returns (TIMEOUT, w') \<longrightarrow> timeout \<noteq> 0)"
proof (intro conjI impI)
  show "Select_tvp 0 = None"
    by (simp add: Select_tvp_def)
  show skip: "Select fd 0 (replicate n Ev_time_elapsed @ events) reads t w =
      Select fd 0 events reads t w" for events
    by (induction n) (simp_all add: Select_time_passes)
  have "Select fd 0 [] reads t w = Never_returns"
    by (simp add: Select_unfold Select_wait_def)
  then show "Select fd 0 (replicate n Ev_time_elapsed) reads t w = Never_returns"
    using skip [of "[]"] by simp
next
  assume r: "Select fd timeout events reads t w = Returns (TIMEOUT, w')"
  show "timeout \<noteq> 0"
  proof
    assume z: "timeout = 0"
    show False
    proof (cases "Select_wait t fd 0 events")
      case None
      then show False using r z by (simp add: Select_unfold)
    next
      case (Some a)
      obtain res errno ready where a: "a = (res, errno, ready)"
        by (cases a)
      have "res \<noteq> 0"
        using Some a Select_wait_null_timeout by blast
      then show False
        using r z Some a
        by (auto simp: Select_unfold split: if_splits option.splits)
    qed
  qed
qed

text \<open>A wait of 1000 microseconds that times out.\<close>

theorem C10_witness:
  "Select 5 1000 [Ev_time_elapsed] [] running_worker world0 =
     Returns (TIMEOUT, after_select running_worker 5 1000 0 world0) \<and> (1000 :: int) \<noteq> 0"
proof -
  have "Select 5 1000 [Ev_time_elapsed] [] running_worker world0 =
     Returns (TIMEOUT, after_select running_worker 5 1000 0 world0)"
    by (simp add: Select_unfold Select_wait_def Select_tvp_def)
  then show ?thesis
    using C10_zero_timeout [where fd = 5 and timeout = 1000 and events = "[Ev_time_elapsed]"
        and reads = "[]" and t = running_worker and w = world0
        and w' = "after_select running_worker 5 1000 0 world0", THEN conjunct2, THEN conjunct2,
        THEN conjunct2]
    by simp
qed

subsection \<open>Stopping the worker thread\<close>

lemma stopThread_write_fails:
  assumes "0 \<le> mThreadControl t"
    and "TEMP_FAILURE_RETRY writes = Some (wres, errno, u)"
    and "wres \<noteq> sizeof_ControlMessage"
  shows "stopThread writes joined t w =
           Returns (if errno \<noteq> 0 then errno else EINVAL, t,
             w\<lparr>trace := trace w @ [Sys_write (mThreadControl t) THREAD_STOP wres]\<rparr>)"
  using assms by (simp add: stopThread_def)

lemma stopWorkerThread_status:
  assumes "stopWorkerThread writes joined d w = Returns (s, d', w')"
    and "isInitialized d"
  shows "s = NO_ERROR"
  using assms
  by (auto simp: stopWorkerThread_def split: option.splits outcome.splits)

text \<open>
  Claim C3. When the write of the stop message fails (here with \<^verbatim>\<open>errno\<close> 9,
  \<^verbatim>\<open>EBADF\<close>, on an initialized device whose worker has open endpoints),
  \<^verbatim>\<open>stopThread\<close> returns that error, joins nothing and closes nothing, but
  \<^verbatim>\<open>stopWorkerThread\<close> drops the status of \<^verbatim>\<open>stopThread\<close> and returns \<^verbatim>\<open>NO_ERROR\<close>:
  the failure does not reach the caller of the public operation.
\<close>

theorem C3_stopWorkerThread_drops_status:
  "stopThread [(- 1, 9, ())] (Some NO_ERROR) running_worker world0 =
     Returns (9, running_worker, world0\<lparr>trace := [Sys_write 4 THREAD_STOP (- 1)]\<rparr>) \<and>
   stopWorkerThread [(- 1, 9, ())] (Some NO_ERROR)
       (initialized_device\<lparr>mWorkerThread := Some running_worker\<rparr>) world0 =
     Returns (NO_ERROR, initialized_device\<lparr>mWorkerThread := Some running_worker\<rparr>,
       world0\<lparr>trace := [Sys_write 4 THREAD_STOP (- 1)]\<rparr>)"
proof -
  have a: "stopThread [(- 1, 9, ())] (Some NO_ERROR) running_worker world0 =
     Returns (9, running_worker, world0\<lparr>trace := [Sys_write 4 THREAD_STOP (- 1)]\<rparr>)"
    by (simp add: stopThread_def running_worker_def world0_def EINTR_def sizeof_ControlMessage_def)
  have i: "isInitialized (initialized_device\<lparr>mWorkerThread := Some running_worker\<rparr>)"
    by (simp add: isInitialized_def initialized_device_def)
  show ?thesis
    using a i by (simp add: stopWorkerThread_def getWorkerThread_def)
qed

subsection \<open>The signaling endpoints\<close>

lemma readyToRun_consistent:
  "readyToRun answer t w = (res, t1, w1) \<Longrightarrow> endpoints_consistent t \<Longrightarrow> endpoints_consistent t1"
  by (cases answer) (auto simp: readyToRun_def endpoints_consistent_def)

lemma stopThread_consistent:
  "stopThread writes joined t w = Returns (res, t1, w1) \<Longrightarrow> endpoints_consistent t \<Longrightarrow>
   endpoints_consistent t1"
  by (auto simp: stopThread_def endpoints_consistent_def close_mThreadControl_def
      close_mControlFD_def Let_def split: if_splits option.splits)

lemma stopThread_success:
  "stopThread writes joined t w = Returns (NO_ERROR, t1, w1) \<Longrightarrow>
   mThreadControl t1 = - 1 \<and> mControlFD t1 < 0 \<and>
   (0 \<le> mControlFD t \<longrightarrow> mControlFD t1 = - 1)"
  by (auto simp: stopThread_def close_mThreadControl_def close_mControlFD_def Let_def
      status_defs split: if_splits option.splits)

lemma run_worker_ops_consistent:
  "run_worker_ops ops t w = Returns (t', w') \<Longrightarrow> endpoints_consistent t \<Longrightarrow>
   endpoints_consistent t'"
proof (induction ops t w rule: run_worker_ops.induct)
  case (1 t w)
  then show ?case by simp
next
  case (2 answer ops t w)
  obtain res t1 w1 where s: "startThread answer t w = (res, t1, w1)"
    by (cases "startThread answer t w")
  then have "endpoints_consistent t1"
    using 2(3) readyToRun_consistent by (simp add: startThread_def)
  then show ?case
    using 2 s by simp
next
  case (3 writes joined ops t w)
  then show ?case
    by (auto split: outcome.splits dest: stopThread_consistent)
qed

text \<open>
  Claim C8. After every sequence of start and stop requests on a new worker
  thread the two endpoint members are both open or both closed; a further
  \<^verbatim>\<open>stopThread\<close> keeps that, and when it succeeds both are closed and set to \<open>-1\<close>.
\<close>

theorem C8_endpoints:
  "(run_worker_ops ops WorkerThread_ctor w = Returns (t, w') \<longrightarrow> endpoints_consistent t) \<and>
   (run_worker_ops ops WorkerThread_ctor w = Returns (t, w') \<and>
    stopThread writes joined t w' = Returns (res, t1, w1) \<longrightarrow>
      endpoints_consistent t1 \<and>
      (res = NO_ERROR \<longrightarrow> mThreadControl t1 = - 1 \<and> mControlFD t1 = - 1))"
proof (intro conjI impI)
  have c: "endpoints_consistent WorkerThread_ctor"
    by (simp add: endpoints_consistent_def WorkerThread_ctor_def)
  show t: "endpoints_consistent t" if "run_worker_ops ops WorkerThread_ctor w = Returns (t, w')"
    using that c by (rule run_worker_ops_consistent)
  assume a: "run_worker_ops ops WorkerThread_ctor w = Returns (t, w') \<and>
    stopThread writes joined t w' = Returns (res, t1, w1)"
  then show "endpoints_consistent t1"
    using t stopThread_consistent by blast
  assume "res = NO_ERROR"
  then have s: "mThreadControl t1 = - 1 \<and> mControlFD t1 < 0"
    using a stopThread_success by blast
  have "endpoints_consistent t1"
    using a t stopThread_consistent by blast
  then show "mThreadControl t1 = - 1" and "mControlFD t1 = - 1"
    using s by (auto simp: endpoints_consistent_def)
qed

text \<open>A start followed by a successful stop.\<close>

theorem C8_witness:
  "run_worker_ops [Start_thread (Pipe_created 3 4)] WorkerThread_ctor world0 =
     Returns (running_worker, world0\<lparr>trace := [Sys_pipe 3 4]\<rparr>) \<and>
   endpoints_consistent running_worker \<and>
   stopThread [(4, 0, ())] (Some NO_ERROR) running_worker (world0\<lparr>trace := [Sys_pipe 3 4]\<rparr>) =
     Returns (NO_ERROR, WorkerThread_ctor,
       world0\<lparr>trace := [Sys_pipe 3 4, Sys_write 4 THREAD_STOP 4, Request_exit_and_wait NO_ERROR,
                          Sys_close 4, Sys_close 3]\<rparr>) \<and>
   endpoints_consistent WorkerThread_ctor \<and>
   mThreadControl WorkerThread_ctor = - 1 \<and> mControlFD WorkerThread_ctor = - 1"
proof -
  have run: "run_worker_ops [Start_thread (Pipe_created 3 4)] WorkerThread_ctor world0 =
     Returns (running_worker, world0\<lparr>trace := [Sys_pipe 3 4]\<rparr>)"
    by (simp add: startThread_def readyToRun_def WorkerThread_ctor_def running_worker_def
        world0_def)
  have stop: "stopThread [(4, 0, ())] (Some NO_ERROR) running_worker
       (world0\<lparr>trace := [Sys_pipe 3 4]\<rparr>) =
     Returns (NO_ERROR, WorkerThread_ctor,
       world0\<lparr>trace := [Sys_pipe 3 4, Sys_write 4 THREAD_STOP 4, Request_exit_and_wait NO_ERROR,
                          Sys_close 4, Sys_close 3]\<rparr>)"
    by (simp add: stopThread_def close_mThreadControl_def close_mControlFD_def
        WorkerThread_ctor_def running_worker_def sizeof_ControlMessage_def Let_def)
  note inv = C8_endpoints [where ops = "[Start_thread (Pipe_created 3 4)]" and w = world0
      and t = running_worker and w' = "world0\<lparr>trace := [Sys_pipe 3 4]\<rparr>", THEN conjunct1]
  note closed = C8_endpoints [where ops = "[Start_thread (Pipe_created 3 4)]" and w = world0
      and t = running_worker and w' = "world0\<lparr>trace := [Sys_pipe 3 4]\<rparr>"
      and writes = "[(4, 0, ())]" and joined = "Some NO_ERROR" and res = NO_ERROR
      and ?t1.0 = WorkerThread_ctor
      and ?w1.0 = "world0\<lparr>trace := [Sys_pipe 3 4, Sys_write 4 THREAD_STOP 4,
          Request_exit_and_wait NO_ERROR, Sys_close 4, Sys_close 3]\<rparr>", THEN conjunct2]
  show ?thesis
    using inv closed run stop by simp
qed

end
